theory Spec2Isabelle
  imports Main
begin

section \<open>Feature engineering: the data model\<close>

text \<open>
  The module \<^verbatim>\<open>src/feature_engineering.py\<close> works on pandas objects. A cell of a table is
  a value or the missing-value marker; values themselves are never inspected by the code
  under study, so their type is a parameter.
\<close>

datatype 'v cell = Val 'v | NaN

text \<open>
  A row label is an integer or a label of some other kind (a string, a timestamp). A row
  index is the list of the labels of the rows, in row order; labels may repeat or skip,
  for instance after rows were dropped. The default index \<^verbatim>\<open>RangeIndex(n)\<close> carries the
  labels \<open>0 .. n - 1\<close>.
\<close>

datatype 'i label = IntLabel int | Label 'i

definition RangeIndex :: "nat \<Rightarrow> 'i label list" where
  "RangeIndex n = map (\<lambda>k. IntLabel (int k)) [0..<n]"

text \<open>
  A \<^verbatim>\<open>DataFrame\<close>: a row index and the columns in their order, each a name with its
  cells. Column names may repeat, as pandas allows. A \<^verbatim>\<open>Series\<close> is a frame of one column.
\<close>

record ('i, 'v) dataframe =
  index :: "'i label list"
  columns :: "(string \<times> 'v cell list) list"

definition nrows :: "('i, 'v) dataframe \<Rightarrow> nat" where
  "nrows df = length (index df)"

definition column_names :: "('i, 'v) dataframe \<Rightarrow> string list" where
  "column_names df = map fst (columns df)"

text \<open>The cells of the column (or columns) called \<open>c\<close>, in row order.\<close>

definition column_values :: "('i, 'v) dataframe \<Rightarrow> string \<Rightarrow> 'v cell list list" where
  "column_values df c = map snd (filter (\<lambda>col. fst col = c) (columns df))"

text \<open>
  A two-dimensional \<^verbatim>\<open>numpy.ndarray\<close>: its shape and its items by row and column
  position.
\<close>

record 'v ndarray =
  rows :: nat
  cols :: nat
  item :: "nat \<Rightarrow> nat \<Rightarrow> 'v cell"

definition ndarray_column :: "'v ndarray \<Rightarrow> nat \<Rightarrow> 'v cell list" where
  "ndarray_column arr j = map (\<lambda>i. item arr i j) [0..<rows arr]"

text \<open>
  The exceptions. \<open>KeyError\<close>, \<open>ValueError\<close> and \<open>InvalidIndexError\<close> are what pandas raises
  in the calls below. \<open>MissingColumnError\<close> is the name the specification uses; no
  statement of the module defines or raises it.
\<close>

datatype error =
  KeyError string | ValueError string | InvalidIndexError | MissingColumnError string

text \<open>
  The interpreter state the code can touch: the frames allocated so far (an object's
  address is its position) and the records handed to \<^verbatim>\<open>logging.info\<close>.
\<close>

type_synonym addr = nat

record ('i, 'v) pystate =
  heap :: "('i, 'v) dataframe list"
  logged :: "string list"

definition deref :: "('i, 'v) pystate \<Rightarrow> addr \<Rightarrow> ('i, 'v) dataframe" where
  "deref s a = heap s ! a"

definition alloc ::
  "('i, 'v) dataframe \<Rightarrow> ('i, 'v) pystate \<Rightarrow> addr \<times> ('i, 'v) pystate" where
  "alloc v s = (length (heap s), s\<lparr>heap := heap s @ [v]\<rparr>)"

definition logging_info :: "string \<Rightarrow> ('i, 'v) pystate \<Rightarrow> ('i, 'v) pystate" where
  "logging_info msg s = s\<lparr>logged := logged s @ [msg]\<rparr>"

section \<open>The pandas operations the module calls\<close>

text \<open>
  \<^verbatim>\<open>df[target_column]\<close>: raises \<^verbatim>\<open>KeyError\<close> when no column has that name; otherwise the
  column (every column of that name, when the name repeats) under the frame's index.
\<close>

definition getitem :: "('i, 'v) dataframe \<Rightarrow> string \<Rightarrow> error + ('i, 'v) dataframe" where
  "getitem df c =
     (if c \<notin> set (column_names df) then Inl (KeyError c)
      else Inr (df\<lparr>columns := filter (\<lambda>col. fst col = c) (columns df)\<rparr>))"

text \<open>
  \<^verbatim>\<open>df.drop(columns=[c])\<close>: raises \<^verbatim>\<open>KeyError\<close> when no column has that name; otherwise a
  new frame without the columns of that name.
\<close>

definition drop_columns :: "('i, 'v) dataframe \<Rightarrow> string \<Rightarrow> error + ('i, 'v) dataframe" where
  "drop_columns df c =
     (if c \<notin> set (column_names df) then Inl (KeyError c)
      else Inr (df\<lparr>columns := filter (\<lambda>col. fst col \<noteq> c) (columns df)\<rparr>))"

text \<open>
  \<^verbatim>\<open>pd.DataFrame(arr, columns=names)\<close>: raises \<^verbatim>\<open>ValueError\<close> when the array does not have
  one column per name; otherwise a frame under the default index with the array's
  columns.
\<close>

definition DataFrame :: "'v ndarray \<Rightarrow> string list \<Rightarrow> error + ('i, 'v) dataframe" where
  "DataFrame arr names =
     (if cols arr \<noteq> length names then Inl (ValueError ''Shape of passed values'')
      else Inr \<lparr>index = RangeIndex (rows arr),
                columns = map (\<lambda>j. (names ! j, ndarray_column arr j)) [0..<cols arr]\<rparr>)"

text \<open>\<^verbatim>\<open>y.reset_index(drop=True)\<close>: the same cells under the default index.\<close>

definition reset_index_drop :: "('i, 'v) dataframe \<Rightarrow> ('i, 'v) dataframe" where
  "reset_index_drop df = df\<lparr>index := RangeIndex (nrows df)\<rparr>"

text \<open>A column extended by missing values to \<open>r\<close> rows.\<close>

definition reindex :: "nat \<Rightarrow> 'v cell list \<Rightarrow> 'v cell list" where
  "reindex r xs = xs @ replicate (r - length xs) NaN"

text \<open>
  A column whose rows carry the labels \<open>ls\<close>, laid out on the labels \<open>u\<close>: each row of the
  result takes the cell stored under its label, or the missing value when the column has
  no row of that label.
\<close>

definition align :: "'i label list \<Rightarrow> 'i label list \<Rightarrow> 'v cell list \<Rightarrow> 'v cell list" where
  "align u ls xs = map (\<lambda>l. case map_of (zip ls xs) l of None \<Rightarrow> NaN | Some c \<Rightarrow> c) u"

text \<open>
  \<^verbatim>\<open>pd.concat([a, b], axis=1)\<close>: an outer join on the row labels. When the two indexes
  are equal the columns of \<open>a\<close> and then those of \<open>b\<close> are put side by side as they are.
  Otherwise both indexes must be free of repeated labels (pandas raises
  \<^verbatim>\<open>InvalidIndexError\<close> if not); the result is indexed by the labels of \<open>a\<close> followed by
  the labels of \<open>b\<close> that \<open>a\<close> lacks, and every column is laid out on that index by label.
\<close>

definition concat_axis1 ::
  "('i, 'v) dataframe \<Rightarrow> ('i, 'v) dataframe \<Rightarrow> error + ('i, 'v) dataframe" where
  "concat_axis1 a b =
     (if index a = index b then Inr \<lparr>index = index a, columns = columns a @ columns b\<rparr>
      else if \<not> distinct (index a) \<or> \<not> distinct (index b) then Inl InvalidIndexError
      else
        let u = index a @ filter (\<lambda>l. l \<notin> set (index a)) (index b)
        in Inr \<lparr>index = u,
                columns = map (\<lambda>col. (fst col, align u (index a) (snd col))) (columns a) @
                          map (\<lambda>col. (fst col, align u (index b) (snd col))) (columns b)\<rparr>)"

section \<open>The strategy and its handler\<close>

text \<open>
  \<^verbatim>\<open>PowerTransformer().fit_transform\<close> belongs to scikit-learn, not to this repository. It
  is a parameter of the model: a function from the frame it is given to the array it
  returns, or to the error it raises.
\<close>

type_synonym ('i, 'v) fit_transform = "('i, 'v) dataframe \<Rightarrow> error + 'v ndarray"

text \<open>
  The library's contract that the array returned has one row per row of the table given
  (\<^verbatim>\<open>shape (n_samples, n_features)\<close>).
\<close>

definition preserves_rows :: "('i, 'v) fit_transform \<Rightarrow> bool" where
  "preserves_rows ft = (\<forall>X arr. ft X = Inr arr \<longrightarrow> rows arr = nrows X)"

text \<open>
  An instance of the concrete class \<^verbatim>\<open>NormalizeFeatureEngineeringStrategy\<close>; its
  constructor stores the feature list.
\<close>

datatype NormalizeFeatureEngineeringStrategy =
  NormalizeFeatureEngineeringStrategy (features: "string list")

text \<open>
  \<^verbatim>\<open>NormalizeFeatureEngineeringStrategy.apply_transformation\<close>, lines 50 to 62. Every pandas
  call that builds an object allocates it; an exception leaves with the state reached.
  The body never reads \<open>features self\<close>.
\<close>

definition apply_transformation ::
  "('i, 'v) fit_transform \<Rightarrow> NormalizeFeatureEngineeringStrategy \<Rightarrow> addr \<Rightarrow> string \<Rightarrow>
   ('i, 'v) pystate \<Rightarrow> (error + addr) \<times> ('i, 'v) pystate" where
  "apply_transformation fit_transform self df target_column s0 =
     (let s1 = logging_info ''Starting feature normalization process.'' s0 in
      case getitem (deref s1 df) target_column of
        Inl e \<Rightarrow> (Inl e, s1)
      | Inr yv \<Rightarrow>
          let (y, s2) = alloc yv s1 in
          case drop_columns (deref s2 df) target_column of
            Inl e \<Rightarrow> (Inl e, s2)
          | Inr Xv \<Rightarrow>
              let (X, s3) = alloc Xv s2 in
              case fit_transform (deref s3 X) of
                Inl e \<Rightarrow> (Inl e, s3)
              | Inr X_norm \<Rightarrow>
                  case DataFrame X_norm (column_names (deref s3 X)) of
                    Inl e \<Rightarrow> (Inl e, s3)
                  | Inr X_norm_dfv \<Rightarrow>
                      let (X_norm_df, s4) = alloc X_norm_dfv s3;
                          (y_reset, s5) = alloc (reset_index_drop (deref s4 y)) s4
                      in case concat_axis1 (deref s5 X_norm_df) (deref s5 y_reset) of
                           Inl e \<Rightarrow> (Inl e, s5)
                         | Inr transformed_dfv \<Rightarrow>
                             let (transformed_df, s6) = alloc transformed_dfv s5;
                                 s7 = logging_info ''Feature engineering completed'' s6
                             in (Inr transformed_df, s7))"

text \<open>
  The abstract class \<^verbatim>\<open>FeatureEngineeringStrategy\<close>: an object of any subclass, seen through
  the one method the class declares. A call returns what the method returns (with the
  interpreter state it leaves) and the object as the call left it, since a method may
  assign to the attributes of \<^verbatim>\<open>self\<close>.
\<close>

codatatype ('i, 'v) FeatureEngineeringStrategy =
  Strategy (apply_transformation_method:
    "addr \<Rightarrow> string \<Rightarrow> ('i, 'v) pystate \<Rightarrow>
     ((error + addr) \<times> ('i, 'v) pystate) \<times> ('i, 'v) FeatureEngineeringStrategy")

text \<open>
  An instance of the concrete class as an object of the abstract class. Its method is
  \<open>apply_transformation\<close> above, which assigns to no attribute.
\<close>

primcorec strategy_object ::
  "('i, 'v) fit_transform \<Rightarrow> NormalizeFeatureEngineeringStrategy \<Rightarrow>
   ('i, 'v) FeatureEngineeringStrategy" where
  "apply_transformation_method (strategy_object fit_transform self) =
     (\<lambda>df target_column s.
        (apply_transformation fit_transform self df target_column s,
         strategy_object fit_transform self))"

text \<open>
  \<^verbatim>\<open>FeatureEngineeringHandler\<close>: one field, the current strategy. Its
  \<open>apply_transformation\<close> (line 108) calls the method of whatever object the field holds;
  the field afterwards holds that object as the call left it.
\<close>

record ('i, 'v) FeatureEngineeringHandler =
  strategy :: "('i, 'v) FeatureEngineeringStrategy"

definition FeatureEngineeringHandler_init ::
  "('i, 'v) FeatureEngineeringStrategy \<Rightarrow> ('i, 'v) FeatureEngineeringHandler" where
  "FeatureEngineeringHandler_init st = \<lparr>strategy = st\<rparr>"

definition strategy_setter ::
  "('i, 'v) FeatureEngineeringHandler \<Rightarrow> ('i, 'v) FeatureEngineeringStrategy \<Rightarrow>
   ('i, 'v) FeatureEngineeringHandler" where
  "strategy_setter h st = h\<lparr>strategy := st\<rparr>"

definition handler_apply_transformation ::
  "('i, 'v) FeatureEngineeringHandler \<Rightarrow> addr \<Rightarrow> string \<Rightarrow> ('i, 'v) pystate \<Rightarrow>
   ((error + addr) \<times> ('i, 'v) pystate) \<times> ('i, 'v) FeatureEngineeringHandler" where
  "handler_apply_transformation h df target_column s =
     (let (r, st) = apply_transformation_method (strategy h) df target_column s
      in (r, h\<lparr>strategy := st\<rparr>))"

text \<open>\<^verbatim>\<open>feature_engineering_step\<close> of \<^verbatim>\<open>steps/feature_engineering_step.py\<close>.\<close>

definition feature_engineering_step ::
  "('i, 'v) fit_transform \<Rightarrow> addr \<Rightarrow> string \<Rightarrow> string list \<Rightarrow>
   ('i, 'v) pystate \<Rightarrow> (error + addr) \<times> ('i, 'v) pystate" where
  "feature_engineering_step fit_transform df target_column feats s =
     (let feature_engineering_handler =
            FeatureEngineeringHandler_init
              (strategy_object fit_transform (NormalizeFeatureEngineeringStrategy feats));
          feature_engineered =
            fst (handler_apply_transformation feature_engineering_handler df target_column s)
      in feature_engineered)"

text \<open>What a call hands back to its caller: the error raised, or the frame returned.\<close>

definition outcome ::
  "(error + addr) \<times> ('i, 'v) pystate \<Rightarrow> error + ('i, 'v) dataframe" where
  "outcome r = (case fst r of Inl e \<Rightarrow> Inl e | Inr a \<Rightarrow> Inr (deref (snd r) a))"

section \<open>An example transformer\<close>

text \<open>
  A stand-in for the library call, used only to run the model on concrete tables: it
  refuses an empty table and otherwise recentres every column on its (integer) mean,
  returning an array of the shape of its input.
\<close>

fun cell_values :: "int cell list \<Rightarrow> int list" where
  "cell_values [] = []"
| "cell_values (Val x # cs) = x # cell_values cs"
| "cell_values (NaN # cs) = cell_values cs"

definition centre_column :: "int cell list \<Rightarrow> int cell list" where
  "centre_column xs =
     (let m = sum_list (cell_values xs) div int (length xs)
      in map (\<lambda>c. case c of Val x \<Rightarrow> Val (x - m) | NaN \<Rightarrow> NaN) xs)"

definition centre_transformer :: "('i, int) fit_transform" where
  "centre_transformer X =
     (if nrows X = 0 \<or> columns X = [] then Inl (ValueError ''Found array with 0 sample(s)'')
      else Inr \<lparr>rows = nrows X, cols = length (columns X),
                item = (\<lambda>i j. centre_column (snd (columns X ! j)) ! i)\<rparr>)"

definition example_df :: "(string, int) dataframe" where
  "example_df =
     \<lparr>index = [IntLabel 10, IntLabel 20, IntLabel 40],
      columns = [(''A'', [Val 1, Val 2, Val 3]),
                 (''B'', [Val 4, Val 5, Val 6]),
                 (''FLAG'', [Val 0, Val 1, Val 0])]\<rparr>"

definition example_state :: "(string, int) pystate" where
  "example_state = \<lparr>heap = [example_df], logged = []\<rparr>"

definition example_run :: "(error + addr) \<times> (string, int) pystate" where
  "example_run =
     apply_transformation centre_transformer (NormalizeFeatureEngineeringStrategy [''A''])
       0 ''FLAG'' example_state"

text \<open>
  A second strategy class, used only to exercise the handler with objects that behave
  differently: it keeps the first frame it was ever given in an attribute and returns
  that frame on every call.
\<close>

primcorec remembering_strategy :: "addr option \<Rightarrow> ('i, 'v) FeatureEngineeringStrategy" where
  "apply_transformation_method (remembering_strategy kept) =
     (\<lambda>df target_column s.
        ((Inr (case kept of None \<Rightarrow> df | Some a \<Rightarrow> a), s),
         remembering_strategy (Some (case kept of None \<Rightarrow> df | Some a \<Rightarrow> a))))"

section \<open>Properties of the default index\<close>

lemma length_RangeIndex: "length (RangeIndex n) = n"
  by (simp add: RangeIndex_def)

lemma distinct_RangeIndex: "distinct (RangeIndex n)"
  by (simp add: RangeIndex_def distinct_map inj_on_def)

lemma RangeIndex_eq_iff: "RangeIndex m = RangeIndex n \<longleftrightarrow> m = n"
  using length_RangeIndex by metis

lemma RangeIndex_nth: "i < n \<Longrightarrow> RangeIndex n ! i = IntLabel (int i)"
  by (simp add: RangeIndex_def)

lemma in_RangeIndex: "IntLabel (int k) \<in> set (RangeIndex n) \<longleftrightarrow> k < n"
  by (auto simp: RangeIndex_def)

lemma RangeIndex_split:
  "m \<le> r \<Longrightarrow> RangeIndex r = RangeIndex m @ map (\<lambda>k. IntLabel (int k)) [m..<r]"
proof -
  assume "m \<le> r"
  then have "[0..<r] = [0..<m] @ [m..<r]"
    by (metis le_add_diff_inverse upt_add_eq_append zero_le)
  then show ?thesis
    by (simp add: RangeIndex_def)
qed

lemma RangeIndex_union:
  "RangeIndex m @ filter (\<lambda>l. l \<notin> set (RangeIndex m)) (RangeIndex n) =
     (RangeIndex (max m n) :: 'i label list)"
proof (cases "n \<le> m")
  case True
  then have "filter (\<lambda>l. l \<notin> set (RangeIndex m)) (RangeIndex n) = ([] :: 'i label list)"
    by (auto simp: filter_empty_conv RangeIndex_def)
  with True show ?thesis by (simp add: max_def)
next
  case False
  then have mn: "m \<le> n" by simp
  let ?ls = "RangeIndex m :: 'i label list"
  let ?rest = "map (\<lambda>k. IntLabel (int k)) [m..<n] :: 'i label list"
  have split: "RangeIndex n = ?ls @ ?rest"
    by (rule RangeIndex_split [OF mn])
  have "filter (\<lambda>l. l \<notin> set ?ls) (?ls @ ?rest) = ?rest"
    by (auto simp: filter_empty_conv filter_id_conv RangeIndex_def)
  then have "filter (\<lambda>l. l \<notin> set ?ls) (RangeIndex n) = ?rest"
    by (simp only: split)
  then have "?ls @ filter (\<lambda>l. l \<notin> set ?ls) (RangeIndex n) = ?ls @ ?rest"
    by (rule arg_cong)
  also have "\<dots> = RangeIndex n"
    by (rule split [symmetric])
  finally show ?thesis
    using mn by (simp add: max_def)
qed

section \<open>Properties of the layout by label\<close>

lemma align_append: "align (u @ v) ls xs = align u ls xs @ align v ls xs"
  by (simp add: align_def)

lemma align_self:
  assumes "distinct ls" and "length xs = length ls"
  shows "align ls ls xs = xs"
proof (rule nth_equalityI)
  show "length (align ls ls xs) = length xs"
    by (simp add: align_def assms(2))
next
  fix i
  assume "i < length (align ls ls xs)"
  then have i: "i < length ls" by (simp add: align_def)
  have "map_of (zip ls xs) (ls ! i) = Some (xs ! i)"
    using assms i by (intro map_of_zip_nth) simp_all
  then show "align ls ls xs ! i = xs ! i"
    using i by (simp add: align_def)
qed

lemma align_miss:
  assumes "set u \<inter> set ls = {}" and "length xs = length ls"
  shows "align u ls xs = replicate (length u) NaN"
proof -
  have "\<And>l. l \<in> set u \<Longrightarrow> map_of (zip ls xs) l = None"
    using assms by (auto simp: map_of_zip_is_None)
  then have "align u ls xs = map (\<lambda>l. NaN) u"
    unfolding align_def by (intro map_cong) simp_all
  then show ?thesis
    by (simp add: map_replicate_const)
qed

lemma align_RangeIndex:
  fixes xs :: "'v cell list"
  assumes "length xs = m" and "m \<le> r"
  shows "align (RangeIndex r) (RangeIndex m :: 'i label list) xs = reindex r xs"
proof -
  let ?ls = "RangeIndex m :: 'i label list"
  let ?rest = "map (\<lambda>k. IntLabel (int k)) [m..<r] :: 'i label list"
  have split: "RangeIndex r = ?ls @ ?rest"
    by (rule RangeIndex_split [OF assms(2)])
  have "set ?rest \<inter> set ?ls = {}"
    by (auto simp: RangeIndex_def)
  then have "align ?rest ?ls xs = replicate (length ?rest) NaN"
    by (rule align_miss) (simp add: length_RangeIndex assms(1))
  then have miss: "align ?rest ?ls xs = replicate (r - m) NaN"
    by simp
  have hit: "align ?ls ?ls xs = xs"
    by (rule align_self) (simp_all add: distinct_RangeIndex length_RangeIndex assms(1))
  have "align (?ls @ ?rest) ?ls xs = reindex r xs"
    by (simp add: align_append hit miss reindex_def assms(1))
  then show ?thesis
    by (simp only: split)
qed

section \<open>Properties of the pandas operations\<close>

lemma getitem_Inr:
  "getitem df c = Inr y \<Longrightarrow>
     c \<in> set (column_names df) \<and> index y = index df \<and>
     columns y = filter (\<lambda>col. fst col = c) (columns df)"
  by (auto simp: getitem_def split: if_splits)

lemma drop_columns_Inr:
  "drop_columns df c = Inr X \<Longrightarrow>
     index X = index df \<and> columns X = filter (\<lambda>col. fst col \<noteq> c) (columns df)"
  by (auto simp: drop_columns_def split: if_splits)

lemma DataFrame_Inr:
  "DataFrame arr names = Inr (Xn :: ('i, 'v) dataframe) \<Longrightarrow>
     cols arr = length names \<and> index Xn = RangeIndex (rows arr) \<and>
     columns Xn = map (\<lambda>j. (names ! j, ndarray_column arr j)) [0..<length names]"
  by (auto simp: DataFrame_def split: if_splits)

lemma DataFrame_names:
  "DataFrame arr names = Inr (Xn :: ('i, 'v) dataframe) \<Longrightarrow> column_names Xn = names"
  by (auto simp: DataFrame_def column_names_def comp_def map_nth split: if_splits)

lemma DataFrame_column_length:
  "DataFrame arr names = Inr (Xn :: ('i, 'v) dataframe) \<Longrightarrow>
     col \<in> set (columns Xn) \<Longrightarrow> length (snd col) = rows arr"
  by (auto simp: DataFrame_def ndarray_column_def split: if_splits)

lemma reset_index_drop_simps:
  "index (reset_index_drop y) = RangeIndex (nrows y)"
  "columns (reset_index_drop y) = columns y"
  by (simp_all add: reset_index_drop_def)

lemma reindex_same: "length xs = r \<Longrightarrow> reindex r xs = xs"
  by (simp add: reindex_def)

text \<open>Concatenating two frames that both carry a default index.\<close>

lemma concat_axis1_default:
  assumes a: "index a = RangeIndex m"
    and b: "index b = RangeIndex n"
    and len: "\<And>col. col \<in> set (columns a) \<Longrightarrow> length (snd col) = m"
  shows "\<exists>v. concat_axis1 a b = Inr v \<and>
           index v = RangeIndex (max m n) \<and>
           column_names v = column_names a @ column_names b \<and>
           take (length (columns a)) (columns v) =
             map (\<lambda>col. (fst col, reindex (max m n) (snd col))) (columns a)"
proof (cases "m = n")
  case True
  then have "concat_axis1 a b = Inr \<lparr>index = RangeIndex m, columns = columns a @ columns b\<rparr>"
    by (simp add: concat_axis1_def a b)
  moreover have "map (\<lambda>col. (fst col, reindex m (snd col))) (columns a) = columns a"
    by (intro map_idI) (simp add: reindex_same len)
  ultimately show ?thesis
    using True by (simp add: column_names_def)
next
  case False
  then have ne: "index a \<noteq> index b"
    by (simp add: a b RangeIndex_eq_iff)
  let ?u = "RangeIndex (max m n) :: 'a label list"
  have u: "index a @ filter (\<lambda>l. l \<notin> set (index a)) (index b) = ?u"
    by (simp add: a b RangeIndex_union)
  have eq: "concat_axis1 a b =
      Inr \<lparr>index = ?u,
           columns = map (\<lambda>col. (fst col, align ?u (index a) (snd col))) (columns a) @
                     map (\<lambda>col. (fst col, align ?u (index b) (snd col))) (columns b)\<rparr>"
    using ne u by (simp add: concat_axis1_def Let_def a b distinct_RangeIndex)
  have "map (\<lambda>col. (fst col, align ?u (index a) (snd col))) (columns a) =
        map (\<lambda>col. (fst col, reindex (max m n) (snd col))) (columns a)"
    by (intro map_cong) (simp_all add: a align_RangeIndex len)
  then show ?thesis
    using eq by (simp add: column_names_def comp_def)
qed

lemma concat_axis1_same_index:
  "index a = index b \<Longrightarrow>
     concat_axis1 a b = Inr \<lparr>index = index a, columns = columns a @ columns b\<rparr>"
  by (simp add: concat_axis1_def)

section \<open>The shape of a call\<close>

lemma apply_transformation_success:
  assumes "df < length (heap s)"
    and "apply_transformation ft self df t s = (Inr out, s')"
  shows "\<exists>yv Xv arr Xn outv.
      getitem (deref s df) t = Inr yv \<and>
      drop_columns (deref s df) t = Inr Xv \<and>
      ft Xv = Inr arr \<and>
      DataFrame arr (column_names Xv) = Inr Xn \<and>
      concat_axis1 Xn (reset_index_drop yv) = Inr outv \<and>
      out = length (heap s) + 4 \<and>
      heap s' = heap s @ [yv, Xv, Xn, reset_index_drop yv, outv] \<and>
      logged s' = logged s @ [''Starting feature normalization process.'',
                              ''Feature engineering completed'']"
  using assms
  by (auto simp: apply_transformation_def Let_def deref_def alloc_def logging_info_def nth_append
      split: sum.splits prod.splits)

lemma apply_transformation_result:
  assumes "df < length (heap s)"
    and "apply_transformation ft self df t s = (Inr out, s')"
  shows "\<exists>yv Xv arr Xn.
      getitem (deref s df) t = Inr yv \<and>
      drop_columns (deref s df) t = Inr Xv \<and>
      ft Xv = Inr arr \<and>
      DataFrame arr (column_names Xv) = Inr Xn \<and>
      concat_axis1 Xn (reset_index_drop yv) = Inr (deref s' out)"
proof -
  from apply_transformation_success [OF assms]
  obtain yv Xv arr Xn outv where
    h: "getitem (deref s df) t = Inr yv" "drop_columns (deref s df) t = Inr Xv"
       "ft Xv = Inr arr" "DataFrame arr (column_names Xv) = Inr (Xn :: ('a, 'b) dataframe)"
       "concat_axis1 Xn (reset_index_drop yv) = Inr outv"
       "out = length (heap s) + 4"
       "heap s' = heap s @ [yv, Xv, Xn, reset_index_drop yv, outv]"
    by blast
  from h(6,7) have "deref s' out = outv"
    by (simp add: deref_def nth_append)
  with h(1-5) show ?thesis by blast
qed

text \<open>
  What a successful call returns, read off the two operands of the concatenation: the
  transformed features under \<open>RangeIndex (rows arr)\<close> and the label under
  \<open>RangeIndex (nrows (deref s df))\<close>.
\<close>

lemma apply_transformation_output:
  assumes "df < length (heap s)"
    and "apply_transformation ft self df t s = (Inr out, s')"
  shows "\<exists>yv Xv arr Xn.
      getitem (deref s df) t = Inr yv \<and>
      drop_columns (deref s df) t = Inr Xv \<and>
      ft Xv = Inr arr \<and>
      DataFrame arr (column_names Xv) = Inr Xn \<and>
      concat_axis1 Xn (reset_index_drop yv) = Inr (deref s' out) \<and>
      index (deref s' out) = RangeIndex (max (rows arr) (nrows (deref s df))) \<and>
      column_names (deref s' out) = column_names Xn @ column_names yv \<and>
      take (length (columns Xn)) (columns (deref s' out)) =
        map (\<lambda>col. (fst col, reindex (max (rows arr) (nrows (deref s df))) (snd col)))
          (columns Xn)"
proof -
  from apply_transformation_result [OF assms]
  obtain yv Xv arr Xn where
    h: "getitem (deref s df) t = Inr yv" "drop_columns (deref s df) t = Inr Xv"
       "ft Xv = Inr arr" "DataFrame arr (column_names Xv) = Inr Xn"
       "concat_axis1 Xn (reset_index_drop yv) = Inr (deref s' out)"
    by blast
  have iX: "index Xn = RangeIndex (rows arr)"
    using DataFrame_Inr [OF h(4)] by simp
  have "nrows yv = nrows (deref s df)"
    using getitem_Inr [OF h(1)] by (simp add: nrows_def)
  then have iy: "index (reset_index_drop yv) = RangeIndex (nrows (deref s df))"
    by (simp add: reset_index_drop_simps)
  have len: "\<And>col. col \<in> set (columns Xn) \<Longrightarrow> length (snd col) = rows arr"
    by (rule DataFrame_column_length [OF h(4)])
  from concat_axis1_default [OF iX iy len] h(5)
  have "index (deref s' out) = RangeIndex (max (rows arr) (nrows (deref s df)))"
    and "column_names (deref s' out) = column_names Xn @ column_names (reset_index_drop yv)"
    and "take (length (columns Xn)) (columns (deref s' out)) =
        map (\<lambda>col. (fst col, reindex (max (rows arr) (nrows (deref s df))) (snd col)))
          (columns Xn)"
    by auto
  moreover have "column_names (reset_index_drop yv) = column_names yv"
    by (simp add: column_names_def reset_index_drop_simps)
  ultimately show ?thesis
    using h by auto
qed


lemma apply_transformation_heap_grows:
  "\<exists>new. heap (snd (apply_transformation ft self df t s)) = heap s @ new"
  by (auto simp: apply_transformation_def Let_def deref_def alloc_def logging_info_def
      split: sum.splits prod.splits)

lemma apply_transformation_frame:
  assumes "a < length (heap s)"
  shows "deref (snd (apply_transformation ft self df t s)) a = deref s a"
proof -
  obtain new where "heap (snd (apply_transformation ft self df t s)) = heap s @ new"
    using apply_transformation_heap_grows by blast
  with assms show ?thesis by (simp add: deref_def nth_append)
qed

lemma outcome_apply_transformation:
  assumes "df < length (heap s)"
  shows "outcome (apply_transformation ft self df t s) =
     (case getitem (deref s df) t of
        Inl e \<Rightarrow> Inl e
      | Inr yv \<Rightarrow>
         (case drop_columns (deref s df) t of
            Inl e \<Rightarrow> Inl e
          | Inr Xv \<Rightarrow>
             (case ft Xv of
                Inl e \<Rightarrow> Inl e
              | Inr arr \<Rightarrow>
                 (case DataFrame arr (column_names Xv) of
                    Inl e \<Rightarrow> Inl e
                  | Inr Xn \<Rightarrow> concat_axis1 Xn (reset_index_drop yv)))))"
  using assms
  by (auto simp: outcome_def apply_transformation_def Let_def deref_def alloc_def
      logging_info_def nth_append split: sum.splits prod.splits)

lemma outcome_value_only:
  assumes "a < length (heap s)" and "a' < length (heap s')" and "deref s a = deref s' a'"
  shows "outcome (apply_transformation ft self a t s) =
         outcome (apply_transformation ft self' a' t s')"
  unfolding outcome_apply_transformation [OF assms(1)]
    outcome_apply_transformation [OF assms(2)] assms(3) ..

section \<open>The example run\<close>

lemma centre_transformer_rows: "preserves_rows centre_transformer"
  by (auto simp: preserves_rows_def centre_transformer_def split: if_splits)

lemma example_run_eq:
  "example_run =
     (Inr 5,
      \<lparr>heap =
         [example_df,
          \<lparr>index = [IntLabel 10, IntLabel 20, IntLabel 40],
           columns = [(''FLAG'', [Val 0, Val 1, Val 0])]\<rparr>,
          \<lparr>index = [IntLabel 10, IntLabel 20, IntLabel 40],
           columns = [(''A'', [Val 1, Val 2, Val 3]), (''B'', [Val 4, Val 5, Val 6])]\<rparr>,
          \<lparr>index = RangeIndex 3,
           columns = [(''A'', [Val (- 1), Val 0, Val 1]), (''B'', [Val (- 1), Val 0, Val 1])]\<rparr>,
          \<lparr>index = RangeIndex 3, columns = [(''FLAG'', [Val 0, Val 1, Val 0])]\<rparr>,
          \<lparr>index = RangeIndex 3,
           columns = [(''A'', [Val (- 1), Val 0, Val 1]), (''B'', [Val (- 1), Val 0, Val 1]),
                      (''FLAG'', [Val 0, Val 1, Val 0])]\<rparr>],
       logged = [''Starting feature normalization process.'',
                 ''Feature engineering completed'']\<rparr>)"
  by code_simp

lemma example_run_call:
  "apply_transformation centre_transformer (NormalizeFeatureEngineeringStrategy [''A''])
     0 ''FLAG'' example_state = (Inr 5, snd example_run)"
  using example_run_eq by (simp add: example_run_def)

lemma example_address: "0 < length (heap example_state)"
  by (simp add: example_state_def)

lemma example_input: "deref example_state 0 = example_df"
  by (simp add: example_state_def deref_def)

lemma example_output:
  "deref (snd example_run) 5 =
     \<lparr>index = RangeIndex 3,
      columns = [(''A'', [Val (- 1), Val 0, Val 1]), (''B'', [Val (- 1), Val 0, Val 1]),
                 (''FLAG'', [Val 0, Val 1, Val 0])]\<rparr>"
  by (simp add: example_run_eq deref_def)

lemma example_rerun:
  "outcome (apply_transformation centre_transformer (NormalizeFeatureEngineeringStrategy [])
              0 ''FLAG'' example_state) =
     Inr \<lparr>index = RangeIndex 3,
          columns = [(''A'', [Val (- 1), Val 0, Val 1]), (''B'', [Val (- 1), Val 0, Val 1]),
                     (''FLAG'', [Val 0, Val 1, Val 0])]\<rparr>"
  by code_simp

lemma example_run_outcome:
  "outcome example_run =
     Inr \<lparr>index = RangeIndex 3,
          columns = [(''A'', [Val (- 1), Val 0, Val 1]), (''B'', [Val (- 1), Val 0, Val 1]),
                     (''FLAG'', [Val 0, Val 1, Val 0])]\<rparr>"
  by (simp add: example_run_eq outcome_def deref_def)

section \<open>The claims\<close>

text \<open>
  C1, as stated, fails. The claim says that a non-empty feature list restricts the
  transformation to the listed columns, the others passing through unchanged. With the
  list \<open>[A]\<close> on the example table, column \<open>B\<close> (not listed) comes back recentred: the
  input holds 4, 5, 6 and the output holds -1, 0, 1.
\<close>

theorem C1_counterexample:
  "features (NormalizeFeatureEngineeringStrategy [''A'']) = [''A''] \<and>
   outcome (apply_transformation centre_transformer (NormalizeFeatureEngineeringStrategy [''A''])
              0 ''FLAG'' example_state) =
     Inr \<lparr>index = RangeIndex 3,
          columns = [(''A'', [Val (- 1), Val 0, Val 1]), (''B'', [Val (- 1), Val 0, Val 1]),
                     (''FLAG'', [Val 0, Val 1, Val 0])]\<rparr> \<and>
   column_values example_df ''B'' = [[Val 4, Val 5, Val 6]]"
  by code_simp

text \<open>
  C1, amended: whatever feature list the strategy was built with, empty or not, the call
  behaves as with the empty list, and on success every non-label column is fitted and
  transformed: the table handed to the transformer is the input without its label
  column, and the leading columns of the output are the columns of the array the
  transformer returned, under the original names.
\<close>

theorem C1_every_feature_column_transformed:
  assumes "df < length (heap s)"
    and "apply_transformation ft self df t s = (Inr out, s')"
  shows "apply_transformation ft self df t s =
           apply_transformation ft (NormalizeFeatureEngineeringStrategy []) df t s \<and>
         (\<exists>X arr. drop_columns (deref s df) t = Inr X \<and> ft X = Inr arr \<and>
            column_names X = filter (\<lambda>c. c \<noteq> t) (column_names (deref s df)) \<and>
            cols arr = length (column_names X) \<and>
            take (cols arr) (columns (deref s' out)) =
              map (\<lambda>j. (column_names X ! j,
                         reindex (nrows (deref s' out)) (ndarray_column arr j)))
                  [0..<cols arr])"
proof
  show "apply_transformation ft self df t s =
          apply_transformation ft (NormalizeFeatureEngineeringStrategy []) df t s"
    by (simp add: apply_transformation_def)
next
  from apply_transformation_output [OF assms]
  obtain yv Xv arr Xn where
    "getitem (deref s df) t = Inr yv"
    and h: "drop_columns (deref s df) t = Inr Xv" "ft Xv = Inr arr"
       "DataFrame arr (column_names Xv) = Inr Xn"
    and "concat_axis1 Xn (reset_index_drop yv) = Inr (deref s' out)"
    and i: "index (deref s' out) = RangeIndex (max (rows arr) (nrows (deref s df)))"
    and "column_names (deref s' out) = column_names Xn @ column_names yv"
    and lead: "take (length (columns Xn)) (columns (deref s' out)) =
          map (\<lambda>col. (fst col, reindex (max (rows arr) (nrows (deref s df))) (snd col)))
            (columns Xn)"
    by blast
  have r: "nrows (deref s' out) = max (rows arr) (nrows (deref s df))"
    by (simp add: nrows_def i length_RangeIndex)
  have names: "column_names Xv = filter (\<lambda>c. c \<noteq> t) (column_names (deref s df))"
    using drop_columns_Inr [OF h(1)] by (simp add: column_names_def filter_map comp_def)
  have shape: "cols arr = length (column_names Xv)"
    and cn: "columns Xn = map (\<lambda>j. (column_names Xv ! j, ndarray_column arr j))
                              [0..<length (column_names Xv)]"
    using DataFrame_Inr [OF h(3)] by simp_all
  have "take (cols arr) (columns (deref s' out)) =
      map (\<lambda>col. (fst col, reindex (nrows (deref s' out)) (snd col))) (columns Xn)"
    using lead by (simp add: r cn shape)
  also have "\<dots> = map (\<lambda>j. (column_names Xv ! j,
                              reindex (nrows (deref s' out)) (ndarray_column arr j)))
                       [0..<cols arr]"
    by (simp add: cn shape comp_def)
  finally show "\<exists>X arr. drop_columns (deref s df) t = Inr X \<and> ft X = Inr arr \<and>
            column_names X = filter (\<lambda>c. c \<noteq> t) (column_names (deref s df)) \<and>
            cols arr = length (column_names X) \<and>
            take (cols arr) (columns (deref s' out)) =
              map (\<lambda>j. (column_names X ! j,
                         reindex (nrows (deref s' out)) (ndarray_column arr j)))
                  [0..<cols arr]"
    using h(1,2) names shape by blast
qed

theorem C1_every_feature_column_transformed_witness:
  "apply_transformation centre_transformer (NormalizeFeatureEngineeringStrategy [''A''])
     0 ''FLAG'' example_state =
   apply_transformation centre_transformer (NormalizeFeatureEngineeringStrategy [])
     0 ''FLAG'' example_state \<and>
   take 2 (columns (deref (snd example_run) 5)) =
     [(''A'', [Val (- 1), Val 0, Val 1]), (''B'', [Val (- 1), Val 0, Val 1])]"
  using C1_every_feature_column_transformed [OF example_address example_run_call]
  by (simp add: example_output)

text \<open>
  C2: for an input that has the target column, and a transformer that returns one row
  per input row, the cells of the target column in the output are those of the input, in
  the same row order, whatever the row labels of the input are: the label column is put
  under the default index before the concatenation, so it meets the transformed features
  row by row.
\<close>

theorem C2_label_preserved:
  assumes "df < length (heap s)"
    and "preserves_rows ft"
    and "apply_transformation ft self df t s = (Inr out, s')"
  shows "column_values (deref s' out) t = column_values (deref s df) t"
proof -
  from apply_transformation_result [OF assms(1,3)]
  obtain yv Xv arr Xn where
    h: "getitem (deref s df) t = Inr yv" "drop_columns (deref s df) t = Inr Xv"
       "ft Xv = Inr arr" "DataFrame arr (column_names Xv) = Inr Xn"
       "concat_axis1 Xn (reset_index_drop yv) = Inr (deref s' out)"
    by blast
  have "rows arr = nrows Xv"
    using assms(2) h(3) by (simp add: preserves_rows_def)
  then have iX: "index Xn = RangeIndex (nrows (deref s df))"
    using DataFrame_Inr [OF h(4)] drop_columns_Inr [OF h(2)] by (simp add: nrows_def)
  have iy: "index (reset_index_drop yv) = RangeIndex (nrows (deref s df))"
    using getitem_Inr [OF h(1)] by (simp add: reset_index_drop_simps nrows_def)
  have "concat_axis1 Xn (reset_index_drop yv) =
          Inr \<lparr>index = index Xn, columns = columns Xn @ columns (reset_index_drop yv)\<rparr>"
    by (rule concat_axis1_same_index) (simp add: iX iy)
  then have "Inr (deref s' out) =
          (Inr \<lparr>index = index Xn, columns = columns Xn @ columns (reset_index_drop yv)\<rparr>
             :: error + ('a, 'b) dataframe)"
    by (simp only: h(5))
  then have "deref s' out =
          \<lparr>index = index Xn, columns = columns Xn @ columns (reset_index_drop yv)\<rparr>"
    by (simp only: sum.inject)
  then have cols: "columns (deref s' out) = columns Xn @ columns yv"
    by (simp add: reset_index_drop_simps)
  have no_label: "filter (\<lambda>col. fst col = t) (columns Xn) = []"
  proof -
    have "t \<notin> set (column_names Xv)"
      using drop_columns_Inr [OF h(2)] by (auto simp: column_names_def)
    then have "t \<notin> set (column_names Xn)"
      using DataFrame_names [OF h(4)] by simp
    then show ?thesis
      by (auto simp: column_names_def filter_empty_conv)
  qed
  have "filter (\<lambda>col. fst col = t) (columns yv) =
        filter (\<lambda>col. fst col = t) (columns (deref s df))"
    using getitem_Inr [OF h(1)] by simp
  then show ?thesis
    by (simp add: column_values_def cols no_label)
qed

theorem C2_label_preserved_witness:
  "preserves_rows centre_transformer \<and>
   column_values (deref (snd example_run) 5) ''FLAG'' = [[Val 0, Val 1, Val 0]] \<and>
   column_values example_df ''FLAG'' = [[Val 0, Val 1, Val 0]] \<and>
   index example_df = [IntLabel 10, IntLabel 20, IntLabel 40]"
proof -
  have "column_values (deref (snd example_run) 5) ''FLAG'' =
        column_values (deref example_state 0) ''FLAG''"
    by (rule C2_label_preserved [OF example_address centre_transformer_rows example_run_call])
  moreover have "column_values example_df ''FLAG'' = [[Val 0, Val 1, Val 0]]"
    by (simp add: column_values_def example_df_def)
  moreover have "index example_df = [IntLabel 10, IntLabel 20, IntLabel 40]"
    by (simp add: example_df_def)
  ultimately show ?thesis
    by (simp add: example_input centre_transformer_rows)
qed

text \<open>
  C3, as stated, fails on the name of the error. The claim says the call fails with a
  \<open>MissingColumnError\<close>; the module defines no such exception and catches nothing, so
  what leaves the call on the example table, asked for the absent column \<open>flag\<close>, is
  the \<^verbatim>\<open>KeyError\<close> of \<^verbatim>\<open>df[target_column]\<close>.
\<close>

theorem C3_counterexample:
  "fst (apply_transformation centre_transformer (NormalizeFeatureEngineeringStrategy [])
          0 ''flag'' example_state) = Inl (KeyError ''flag'') \<and>
   fst (apply_transformation centre_transformer (NormalizeFeatureEngineeringStrategy [])
          0 ''flag'' example_state) \<noteq> Inl (MissingColumnError ''flag'')"
  by code_simp

text \<open>
  C3, amended: when no column of the input has the target name, the call raises
  \<^verbatim>\<open>KeyError\<close> for that name at its first statement after the log record: no frame
  is returned and none was built.
\<close>

theorem C3_missing_target:
  assumes "t \<notin> set (column_names (deref s df))"
  shows "apply_transformation ft self df t s =
           (Inl (KeyError t), logging_info ''Starting feature normalization process.'' s) \<and>
         heap (snd (apply_transformation ft self df t s)) = heap s"
  using assms
  by (simp add: apply_transformation_def Let_def getitem_def deref_def logging_info_def)

theorem C3_missing_target_witness:
  "''flag'' \<notin> set (column_names (deref example_state 0)) \<and>
   apply_transformation centre_transformer (NormalizeFeatureEngineeringStrategy []) 0 ''flag''
     example_state =
     (Inl (KeyError ''flag''),
      \<lparr>heap = [example_df], logged = [''Starting feature normalization process.'']\<rparr>)"
proof -
  have h: "''flag'' \<notin> set (column_names (deref example_state 0))"
    by (simp add: example_input column_names_def example_df_def)
  from C3_missing_target [OF h, of centre_transformer "NormalizeFeatureEngineeringStrategy []"]
  show ?thesis using h
    by (simp add: logging_info_def example_state_def)
qed

text \<open>
  C4: the handler's \<open>apply_transformation\<close> is the call of the method of whatever
  strategy object it holds, on the same arguments: the same result or error and the same
  interpreter state, and the field then holds that object as its method left it. Held
  with an instance of the concrete class, it is that class's \<open>apply_transformation\<close>.
\<close>

theorem C4_handler_delegates:
  "handler_apply_transformation h df t s =
     (fst (apply_transformation_method (strategy h) df t s),
      h\<lparr>strategy := snd (apply_transformation_method (strategy h) df t s)\<rparr>) \<and>
   fst (handler_apply_transformation
          (FeatureEngineeringHandler_init (strategy_object ft self)) df t s) =
     apply_transformation ft self df t s"
  by (simp add: handler_apply_transformation_def FeatureEngineeringHandler_init_def
      split_beta)

theorem C4_handler_delegates_witness:
  "fst (handler_apply_transformation
          (FeatureEngineeringHandler_init (remembering_strategy (Some 7)))
          0 ''FLAG'' example_state) = (Inr 7, example_state) \<and>
   fst (handler_apply_transformation
          (FeatureEngineeringHandler_init
             (strategy_object centre_transformer (NormalizeFeatureEngineeringStrategy [''A''])))
          0 ''FLAG'' example_state) = (Inr 5, snd example_run)"
proof -
  have "fst (handler_apply_transformation
          (FeatureEngineeringHandler_init (remembering_strategy (Some 7)))
          0 ''FLAG'' example_state) =
        fst (apply_transformation_method
               (strategy (FeatureEngineeringHandler_init (remembering_strategy (Some 7))))
               0 ''FLAG'' example_state)"
    using C4_handler_delegates
      [of "FeatureEngineeringHandler_init (remembering_strategy (Some 7))" 0 "''FLAG''"
          example_state]
    by simp
  moreover have "fst (handler_apply_transformation
          (FeatureEngineeringHandler_init
             (strategy_object centre_transformer (NormalizeFeatureEngineeringStrategy [''A''])))
          0 ''FLAG'' example_state) =
        apply_transformation centre_transformer (NormalizeFeatureEngineeringStrategy [''A''])
          0 ''FLAG'' example_state"
    using C4_handler_delegates by blast
  ultimately show ?thesis
    by (simp add: FeatureEngineeringHandler_init_def example_run_call)
qed

text \<open>
  C5: on success the output's column names are the input's feature names in their
  order, followed by the label name; as a set they are the input's column names, and
  the label comes last.
\<close>

theorem C5_column_names:
  assumes "df < length (heap s)"
    and "apply_transformation ft self df t s = (Inr out, s')"
  shows "column_names (deref s' out) =
           filter (\<lambda>c. c \<noteq> t) (column_names (deref s df)) @
           filter (\<lambda>c. c = t) (column_names (deref s df)) \<and>
         set (column_names (deref s' out)) = set (column_names (deref s df)) \<and>
         last (column_names (deref s' out)) = t"
proof -
  from apply_transformation_output [OF assms]
  obtain yv Xv arr Xn where
    h: "getitem (deref s df) t = Inr yv" "drop_columns (deref s df) t = Inr Xv"
    and "ft Xv = Inr arr"
    and d: "DataFrame arr (column_names Xv) = Inr Xn"
    and "concat_axis1 Xn (reset_index_drop yv) = Inr (deref s' out)"
    and "index (deref s' out) = RangeIndex (max (rows arr) (nrows (deref s df)))"
    and cn: "column_names (deref s' out) = column_names Xn @ column_names yv"
    and "take (length (columns Xn)) (columns (deref s' out)) =
          map (\<lambda>col. (fst col, reindex (max (rows arr) (nrows (deref s df))) (snd col)))
            (columns Xn)"
    by blast
  have nX: "column_names Xn = filter (\<lambda>c. c \<noteq> t) (column_names (deref s df))"
    using DataFrame_names [OF d] drop_columns_Inr [OF h(2)]
    by (simp add: column_names_def filter_map comp_def)
  have ny: "column_names yv = filter (\<lambda>c. c = t) (column_names (deref s df))"
    using getitem_Inr [OF h(1)]
    by (simp add: column_names_def filter_map comp_def)
  have names: "column_names (deref s' out) =
      filter (\<lambda>c. c \<noteq> t) (column_names (deref s df)) @
      filter (\<lambda>c. c = t) (column_names (deref s df))"
    by (simp add: cn nX ny)
  have "t \<in> set (column_names (deref s df))"
    using getitem_Inr [OF h(1)] by simp
  then have ne: "filter (\<lambda>c. c = t) (column_names (deref s df)) \<noteq> []"
    by (simp add: filter_empty_conv)
  have "last (filter (\<lambda>c. c = t) (column_names (deref s df))) \<in>
          set (filter (\<lambda>c. c = t) (column_names (deref s df)))"
    using ne by (rule last_in_set)
  then have "last (filter (\<lambda>c. c = t) (column_names (deref s df))) = t"
    by simp
  then have l: "last (column_names (deref s' out)) = t"
    using ne by (simp add: names)
  have "set (column_names (deref s' out)) = set (column_names (deref s df))"
    by (auto simp: names)
  with names l show ?thesis by blast
qed

theorem C5_column_names_witness:
  "column_names (deref example_state 0) = [''A'', ''B'', ''FLAG''] \<and>
   column_names (deref (snd example_run) 5) = [''A'', ''B'', ''FLAG''] \<and>
   last (column_names (deref (snd example_run) 5)) = ''FLAG''"
  using C5_column_names [OF example_address example_run_call]
  by (simp add: example_input column_names_def example_df_def)

text \<open>
  C6: with a transformer that returns one row per input row, the output has as many
  rows as the input.
\<close>

theorem C6_row_count:
  assumes "df < length (heap s)"
    and "preserves_rows ft"
    and "apply_transformation ft self df t s = (Inr out, s')"
  shows "nrows (deref s' out) = nrows (deref s df)"
proof -
  from apply_transformation_output [OF assms(1,3)]
  obtain yv Xv arr Xn where
    "getitem (deref s df) t = Inr yv"
    and h: "drop_columns (deref s df) t = Inr Xv" "ft Xv = Inr arr"
    and "DataFrame arr (column_names Xv) = Inr Xn"
    and "concat_axis1 Xn (reset_index_drop yv) = Inr (deref s' out)"
    and i: "index (deref s' out) = RangeIndex (max (rows arr) (nrows (deref s df)))"
    and "column_names (deref s' out) = column_names Xn @ column_names yv"
    and "take (length (columns Xn)) (columns (deref s' out)) =
          map (\<lambda>col. (fst col, reindex (max (rows arr) (nrows (deref s df))) (snd col)))
            (columns Xn)"
    by blast
  have "rows arr = nrows Xv"
    using assms(2) h(2) by (simp add: preserves_rows_def)
  then have "rows arr = nrows (deref s df)"
    using drop_columns_Inr [OF h(1)] by (simp add: nrows_def)
  then show ?thesis
    by (simp add: nrows_def [of "deref s' out"] i length_RangeIndex)
qed

theorem C6_row_count_witness:
  "preserves_rows centre_transformer \<and>
   nrows (deref (snd example_run) 5) = 3 \<and> nrows (deref example_state 0) = 3"
  using C6_row_count [OF example_address centre_transformer_rows example_run_call]
  by (simp add: centre_transformer_rows example_input nrows_def example_df_def)



text \<open>
  C8: setting a new strategy makes the handler hold exactly that object, and the next call
  through the handler is the call of that object's method: its result, the interpreter
  state and the object kept afterwards are functions of the new strategy and the
  arguments alone, whatever the handler held before and whatever that object had stored.
  When both the old and the new strategy are instances of the concrete class, the frame
  returned after the swap is moreover the one the new strategy returns where the earlier
  call never happened.
\<close>

theorem C8_strategy_swap:
  "strategy (strategy_setter h st) = st \<and>
   handler_apply_transformation (strategy_setter h st) df t s =
     (fst (apply_transformation_method st df t s),
      \<lparr>strategy = snd (apply_transformation_method st df t s)\<rparr>) \<and>
   (dfb < length (heap sa) \<and> strategy ha = strategy_object ft old \<and>
    handler_apply_transformation ha dfa ta sa = ((ra, sb), hb) \<longrightarrow>
      outcome (fst (handler_apply_transformation
                      (strategy_setter hb (strategy_object ft new)) dfb tb sb)) =
      outcome (apply_transformation ft new dfb tb sa))"
proof (intro conjI impI)
  show "strategy (strategy_setter h st) = st"
    by (simp add: strategy_setter_def)
next
  show "handler_apply_transformation (strategy_setter h st) df t s =
     (fst (apply_transformation_method st df t s),
      \<lparr>strategy = snd (apply_transformation_method st df t s)\<rparr>)"
    by (simp add: handler_apply_transformation_def strategy_setter_def split_beta)
next
  assume a: "dfb < length (heap sa) \<and> strategy ha = strategy_object ft old \<and>
    handler_apply_transformation ha dfa ta sa = ((ra, sb), hb)"
  then have valid: "dfb < length (heap sa)"
    and sb: "sb = snd (apply_transformation ft old dfa ta sa)"
    by (auto simp: handler_apply_transformation_def split_beta)
  have same: "deref sb dfb = deref sa dfb"
    unfolding sb by (rule apply_transformation_frame [OF valid])
  obtain grown where "heap sb = heap sa @ grown"
    unfolding sb using apply_transformation_heap_grows by blast
  then have valid': "dfb < length (heap sb)"
    using valid by simp
  have "fst (handler_apply_transformation
               (strategy_setter hb (strategy_object ft new)) dfb tb sb) =
        apply_transformation ft new dfb tb sb"
    by (simp add: handler_apply_transformation_def strategy_setter_def split_beta)
  moreover have "outcome (apply_transformation ft new dfb tb sb) =
        outcome (apply_transformation ft new dfb tb sa)"
    by (rule outcome_value_only [OF valid' valid same])
  ultimately show "outcome (fst (handler_apply_transformation
                      (strategy_setter hb (strategy_object ft new)) dfb tb sb)) =
      outcome (apply_transformation ft new dfb tb sa)"
    by simp
qed

text \<open>
  An instance of the theorem with strategies that can be told apart: a handler whose
  strategy has stored frame 7 returns frame 7; after the swap to the normalizing
  strategy it returns the transformed table, and the handler then holds the new object.
  The last part runs the swap from one normalizing strategy to another after a first
  call.
\<close>

theorem C8_strategy_swap_witness:
  "fst (handler_apply_transformation
          (FeatureEngineeringHandler_init (remembering_strategy (Some 7)))
          0 ''FLAG'' example_state) = (Inr 7, example_state) \<and>
   handler_apply_transformation
     (strategy_setter (FeatureEngineeringHandler_init (remembering_strategy (Some 7)))
        (strategy_object centre_transformer (NormalizeFeatureEngineeringStrategy [])))
     0 ''FLAG'' example_state =
     (apply_transformation centre_transformer (NormalizeFeatureEngineeringStrategy [])
        0 ''FLAG'' example_state,
      \<lparr>strategy =
         strategy_object centre_transformer (NormalizeFeatureEngineeringStrategy [])\<rparr>) \<and>
   outcome (fst (handler_apply_transformation
      (strategy_setter
         (FeatureEngineeringHandler_init
            (strategy_object centre_transformer (NormalizeFeatureEngineeringStrategy [''A''])))
         (strategy_object centre_transformer (NormalizeFeatureEngineeringStrategy [])))
      0 ''FLAG'' (snd example_run))) =
     Inr \<lparr>index = RangeIndex 3,
          columns = [(''A'', [Val (- 1), Val 0, Val 1]), (''B'', [Val (- 1), Val 0, Val 1]),
                     (''FLAG'', [Val 0, Val 1, Val 0])]\<rparr>"
proof -
  let ?old = "FeatureEngineeringHandler_init (remembering_strategy (Some 7))
                :: (string, int) FeatureEngineeringHandler"
  let ?norm = "strategy_object centre_transformer (NormalizeFeatureEngineeringStrategy [])
                :: (string, int) FeatureEngineeringStrategy"
  let ?ha = "FeatureEngineeringHandler_init
               (strategy_object centre_transformer (NormalizeFeatureEngineeringStrategy [''A'']))
                :: (string, int) FeatureEngineeringHandler"
  have before: "fst (handler_apply_transformation ?old 0 ''FLAG'' example_state) =
                  (Inr 7, example_state)"
    by (simp add: handler_apply_transformation_def FeatureEngineeringHandler_init_def
        split_beta)
  have first: "handler_apply_transformation ?ha 0 ''FLAG'' example_state =
                 ((Inr 5, snd example_run), ?ha)"
    by (simp add: handler_apply_transformation_def FeatureEngineeringHandler_init_def
        split_beta example_run_call)
  have held: "strategy ?ha =
      strategy_object centre_transformer (NormalizeFeatureEngineeringStrategy [''A''])"
    by (simp add: FeatureEngineeringHandler_init_def)
  note inst = C8_strategy_swap [where h = "?old" and st = "?norm" and df = 0 and t = "''FLAG''"
      and s = example_state and dfb = 0 and sa = example_state and ha = "?ha"
      and ft = centre_transformer and old = "NormalizeFeatureEngineeringStrategy [''A'']"
      and dfa = 0 and ta = "''FLAG''" and ra = "Inr 5" and sb = "snd example_run"
      and hb = "?ha" and new = "NormalizeFeatureEngineeringStrategy []" and tb = "''FLAG''"]
  from inst have swap: "handler_apply_transformation (strategy_setter ?old ?norm)
      0 ''FLAG'' example_state =
     (fst (apply_transformation_method ?norm 0 ''FLAG'' example_state),
      \<lparr>strategy = snd (apply_transformation_method ?norm 0 ''FLAG'' example_state)\<rparr>)"
    by (elim conjE)
  from inst have "0 < length (heap example_state) \<and> strategy ?ha =
        strategy_object centre_transformer (NormalizeFeatureEngineeringStrategy [''A'']) \<and>
      handler_apply_transformation ?ha 0 ''FLAG'' example_state =
        ((Inr 5, snd example_run), ?ha) \<longrightarrow>
      outcome (fst (handler_apply_transformation (strategy_setter ?ha ?norm)
                      0 ''FLAG'' (snd example_run))) =
      outcome (apply_transformation centre_transformer (NormalizeFeatureEngineeringStrategy [])
                 0 ''FLAG'' example_state)"
    by (elim conjE)
  then have after: "outcome (fst (handler_apply_transformation (strategy_setter ?ha ?norm)
                      0 ''FLAG'' (snd example_run))) =
      outcome (apply_transformation centre_transformer (NormalizeFeatureEngineeringStrategy [])
                 0 ''FLAG'' example_state)"
    using example_address held first by blast
  have "handler_apply_transformation (strategy_setter ?old ?norm) 0 ''FLAG'' example_state =
     (apply_transformation centre_transformer (NormalizeFeatureEngineeringStrategy [])
        0 ''FLAG'' example_state, \<lparr>strategy = ?norm\<rparr>)"
    using swap by simp
  with before after show ?thesis
    by (simp only: example_rerun simp_thms)
qed

text \<open>
  C9: a second invocation on the same input with the same strategy, made after the first,
  returns a frame identical to the first one's (or raises the same error); so does an
  invocation in any other state on a frame of the same content. The library transformer
  is a function of the table it is given.
\<close>

theorem C9_deterministic:
  assumes "df < length (heap s)"
    and "apply_transformation ft self df t s = (r1, s1)"
    and "df' < length (heap s')"
    and "deref s' df' = deref s df"
  shows "outcome (apply_transformation ft self df t s1) = outcome (r1, s1) \<and>
         outcome (apply_transformation ft self df' t s') = outcome (r1, s1)"
proof -
  have s1: "s1 = snd (apply_transformation ft self df t s)"
    by (simp add: assms(2))
  have same: "deref s1 df = deref s df"
    unfolding s1 by (rule apply_transformation_frame [OF assms(1)])
  obtain new where "heap s1 = heap s @ new"
    unfolding s1 using apply_transformation_heap_grows by blast
  then have valid: "df < length (heap s1)"
    using assms(1) by simp
  have "outcome (apply_transformation ft self df t s1) =
        outcome (apply_transformation ft self df t s)"
    by (rule outcome_value_only [OF valid assms(1) same])
  moreover have "outcome (apply_transformation ft self df' t s') =
        outcome (apply_transformation ft self df t s)"
    by (rule outcome_value_only [OF assms(3) assms(1) assms(4)])
  ultimately show ?thesis by (simp add: assms(2))
qed

theorem C9_deterministic_witness:
  "outcome (apply_transformation centre_transformer (NormalizeFeatureEngineeringStrategy [''A''])
              0 ''FLAG'' (snd example_run)) = outcome example_run \<and>
   outcome example_run =
     Inr \<lparr>index = RangeIndex 3,
          columns = [(''A'', [Val (- 1), Val 0, Val 1]), (''B'', [Val (- 1), Val 0, Val 1]),
                     (''FLAG'', [Val 0, Val 1, Val 0])]\<rparr>"
proof -
  have "deref example_state 0 = deref example_state 0" ..
  from C9_deterministic [OF example_address example_run_call example_address this]
  have "outcome (apply_transformation centre_transformer
                   (NormalizeFeatureEngineeringStrategy [''A'']) 0 ''FLAG'' (snd example_run)) =
        outcome (Inr 5, snd example_run)"
    by simp
  moreover have "(Inr 5, snd example_run) = example_run"
    by (simp add: example_run_eq)
  ultimately show ?thesis
    by (simp add: example_run_outcome)
qed



end
